theory Spec2Isabelle
  imports Complex_Main
begin

section \<open>Turn clock (class Clock of gui.py)\<close>

text \<open>
  Sides are python-chess colours (\<open>chess.WHITE\<close>, \<open>chess.BLACK\<close>). The clock keeps a
  dictionary from side to remaining seconds and one \<open>last_tick\<close> timestamp. Python floats
  are modelled as reals; each call of \<open>time.time()\<close> is an explicit argument carrying the
  value that was read.
\<close>

datatype color = WHITE | BLACK

record clock =
  remaining :: "color \<Rightarrow> real"
  last_tick :: real

definition START_TIME :: real where
  "START_TIME = 300"

text \<open>\<open>Clock.__init__(start_sec)\<close>; \<open>now\<close> is the reading of \<open>time.time()\<close>.\<close>

definition Clock_init :: "real \<Rightarrow> real \<Rightarrow> clock" where
  "Clock_init start_sec now = \<lparr>remaining = (\<lambda>_. start_sec), last_tick = now\<rparr>"

definition start_turn :: "real \<Rightarrow> clock \<Rightarrow> clock" where
  "start_turn now c = c\<lparr>last_tick := now\<rparr>"

definition stop_turn :: "color \<Rightarrow> real \<Rightarrow> clock \<Rightarrow> clock" where
  "stop_turn side_to_move now c =
     c\<lparr>remaining := (remaining c)(side_to_move := remaining c side_to_move - (now - last_tick c))\<rparr>"

definition flag :: "clock \<Rightarrow> bool" where
  "flag c = (remaining c WHITE \<le> 0 \<or> remaining c BLACK \<le> 0)"

text \<open>Python's \<open>int(x)\<close> on a float truncates towards zero.\<close>

definition py_int :: "real \<Rightarrow> int" where
  "py_int x = (if 0 \<le> x then \<lfloor>x\<rfloor> else \<lceil>x\<rceil>)"

text \<open>The number of seconds \<open>Clock.draw\<close> formats for a side: \<open>max(0, int(remaining[side]))\<close>.\<close>

definition draw_secs :: "clock \<Rightarrow> color \<Rightarrow> int" where
  "draw_secs c side = max 0 (py_int (remaining c side))"

text \<open>A sequence of clock calls, each with the timestamp it read.\<close>

datatype clock_op = StartTurn real | StopTurn color real

fun op_time :: "clock_op \<Rightarrow> real" where
  "op_time (StartTurn t) = t"
| "op_time (StopTurn s t) = t"

fun clock_step :: "clock \<Rightarrow> clock_op \<Rightarrow> clock" where
  "clock_step c (StartTurn t) = start_turn t c"
| "clock_step c (StopTurn s t) = stop_turn s t c"

fun run_clock :: "clock \<Rightarrow> clock_op list \<Rightarrow> clock" where
  "run_clock c [] = c"
| "run_clock c (x # xs) = run_clock (clock_step c x) xs"

text \<open>The timestamps of a sequence of calls never run backwards, starting from \<open>t\<close>.\<close>

fun readings_ok :: "real \<Rightarrow> clock_op list \<Rightarrow> bool" where
  "readings_ok t [] = True"
| "readings_ok t (x # xs) = (t \<le> op_time x \<and> readings_ok (op_time x) xs)"

section \<open>Move ledger (class ScrollableMoveLog of gui.py)\<close>

text \<open>
  An entry is the Python list \<open>[move_number, white_san, black_san]\<close>. Python integers are
  unbounded, hence \<open>int\<close>. The rectangle is \<open>pygame.Rect(x, y, width, height)\<close>.
\<close>

type_synonym log_entry = "int \<times> string \<times> string"

record move_log =
  rect :: "int \<times> int \<times> int \<times> int"
  moves :: "log_entry list"
  current_move_number :: int
  waiting_for_black :: bool
  line_height :: int
  visible_lines :: int
  scroll_y :: int
  max_scroll :: int

definition ScrollableMoveLog_init :: "int \<Rightarrow> int \<Rightarrow> int \<Rightarrow> int \<Rightarrow> move_log" where
  "ScrollableMoveLog_init x y width height =
     \<lparr>rect = (x, y, width, height), moves = [], current_move_number = 1,
      waiting_for_black = False, line_height = 18,
      visible_lines = (height - 60) div 18, scroll_y = 0, max_scroll = 0\<rparr>"

definition update_scroll_limits :: "move_log \<Rightarrow> move_log" where
  "update_scroll_limits l =
     (let total = int (length (moves l));
          l1 = (if total > visible_lines l
                then l\<lparr>max_scroll := (total - visible_lines l) * line_height l\<rparr>
                else l\<lparr>max_scroll := 0\<rparr>)
      in l1\<lparr>scroll_y := max 0 (min (scroll_y l1) (max_scroll l1))\<rparr>)"

definition auto_scroll_to_bottom :: "move_log \<Rightarrow> move_log" where
  "auto_scroll_to_bottom l = l\<lparr>scroll_y := max_scroll l\<rparr>"

text \<open>\<open>self.moves[-1][2] = san\<close>, reached only when \<open>self.moves\<close> is not empty.\<close>

definition set_last_black :: "log_entry list \<Rightarrow> string \<Rightarrow> log_entry list" where
  "set_last_black ms san =
     (case last ms of (n, ws, bs) \<Rightarrow> butlast ms @ [(n, ws, san)])"

definition add_move :: "move_log \<Rightarrow> string \<Rightarrow> bool \<Rightarrow> move_log" where
  "add_move l san is_white =
     (let l1 =
        (if is_white then
           l\<lparr>moves := moves l @ [(current_move_number l, san, '''')],
             waiting_for_black := True\<rparr>
         else if waiting_for_black l \<and> moves l \<noteq> [] then
           l\<lparr>moves := set_last_black (moves l) san,
             current_move_number := current_move_number l + 1,
             waiting_for_black := False\<rparr>
         else
           l\<lparr>moves := moves l @ [(current_move_number l, '''', san)],
             current_move_number := current_move_number l + 1\<rparr>)
      in auto_scroll_to_bottom (update_scroll_limits l1))"

definition clear_log :: "move_log \<Rightarrow> move_log" where
  "clear_log l = l\<lparr>moves := [], current_move_number := 1, waiting_for_black := False,
                   scroll_y := 0, max_scroll := 0\<rparr>"

text \<open>\<open>pygame.Rect.collidepoint\<close>: left and top edges are inside, right and bottom are not.\<close>

definition collidepoint :: "int \<times> int \<times> int \<times> int \<Rightarrow> int \<times> int \<Rightarrow> bool" where
  "collidepoint r p =
     (case r of (x, y, w, h) \<Rightarrow> case p of (px, py) \<Rightarrow>
        x \<le> px \<and> px < x + w \<and> y \<le> py \<and> py < y + h)"

text \<open>
  \<open>handle_mouse_wheel(e)\<close>: \<open>mouse\<close> is the value of \<open>pygame.mouse.get_pos()\<close> and \<open>ey\<close>
  is \<open>e.y\<close>. The result pairs the returned flag with the ledger.
\<close>

definition handle_mouse_wheel :: "move_log \<Rightarrow> int \<times> int \<Rightarrow> int \<Rightarrow> bool \<times> move_log" where
  "handle_mouse_wheel l mouse ey =
     (if collidepoint (rect l) mouse then
        (let amt = ey * line_height l * 3
         in (True, l\<lparr>scroll_y := max 0 (min (scroll_y l - amt) (max_scroll l))\<rparr>))
      else (False, l))"

datatype log_op = AddMove string bool | ClearLog | Wheel "int \<times> int" int

fun log_step :: "move_log \<Rightarrow> log_op \<Rightarrow> move_log" where
  "log_step l (AddMove san w) = add_move l san w"
| "log_step l ClearLog = clear_log l"
| "log_step l (Wheel mouse ey) = snd (handle_mouse_wheel l mouse ey)"

fun run_log :: "move_log \<Rightarrow> log_op list \<Rightarrow> move_log" where
  "run_log l [] = l"
| "run_log l (x # xs) = run_log (log_step l x) xs"

text \<open>The bound the scroll offset is held to: \<open>max(0, total - visible) * line_height\<close>.\<close>

definition scroll_bound :: "move_log \<Rightarrow> int" where
  "scroll_bound l = max 0 (int (length (moves l)) - visible_lines l) * line_height l"

section \<open>The rules library as a parameter (python-chess)\<close>

text \<open>
  The rules library is not part of the repository. The controller uses it through a
  handful of queries on a board value, which are collected in the record \<open>rules\<close> and
  passed to every operation. A square is \<open>chess.square(file, rank) = rank * 8 + file\<close>.
  A move has an origin, a destination and an optional promotion kind (the \<open>drop\<close> field of
  \<open>chess.Move\<close> is never set by this program and is left out).
\<close>

datatype piece_type = PAWN | KNIGHT | BISHOP | ROOK | QUEEN | KING

record piece =
  piece_type :: piece_type
  color :: color

type_synonym square = nat

definition square :: "nat \<Rightarrow> nat \<Rightarrow> square" where
  "square file_index rank_index = rank_index * 8 + file_index"

definition square_rank :: "square \<Rightarrow> nat" where
  "square_rank sq = sq div 8"

definition square_file :: "square \<Rightarrow> nat" where
  "square_file sq = sq mod 8"

record move =
  from_square :: square
  to_square :: square
  promotion :: "piece_type option"

text \<open>
  \<open>new_board\<close> is the position of \<open>chess.Board()\<close> and of \<open>board.reset()\<close>;
  \<open>san\<close> returns \<open>None\<close> where the library raises on a move it cannot render.
\<close>

record 'b rules =
  new_board :: 'b
  legal_moves :: "'b \<Rightarrow> move list"
  push :: "'b \<Rightarrow> move \<Rightarrow> 'b"
  san :: "'b \<Rightarrow> move \<Rightarrow> string option"
  piece_at :: "'b \<Rightarrow> square \<Rightarrow> piece option"
  turn :: "'b \<Rightarrow> color"
  is_game_over :: "'b \<Rightarrow> bool"

section \<open>Engine adapter (class UCIEngine)\<close>

text \<open>
  The engine process is a function from the board it is given to the move it answers,
  \<open>None\<close> when the call raises or produces no move. The field \<open>self.engine\<close> is \<open>None\<close>
  when the process could not be started.
\<close>

type_synonym 'b uci_engine = "('b \<Rightarrow> move option) option"

definition best_move :: "'b uci_engine \<Rightarrow> 'b \<Rightarrow> move option" where
  "best_move eng b = (case eng of None \<Rightarrow> None | Some play \<Rightarrow> play b)"

section \<open>Session controller (class ChessGUI)\<close>

datatype Mode = HUMAN_VS_HUMAN | HUMAN_VS_ENGINE | ENGINE_VS_HUMAN | ENGINE_VS_ENGINE | ANALYSIS

definition modes :: "Mode list" where
  "modes = [HUMAN_VS_HUMAN, HUMAN_VS_ENGINE, ENGINE_VS_HUMAN, ENGINE_VS_ENGINE, ANALYSIS]"

fun mode_index :: "Mode \<Rightarrow> nat" where
  "mode_index HUMAN_VS_HUMAN = 0"
| "mode_index HUMAN_VS_ENGINE = 1"
| "mode_index ENGINE_VS_HUMAN = 2"
| "mode_index ENGINE_VS_ENGINE = 3"
| "mode_index ANALYSIS = 4"

text \<open>
  The background thread runs \<open>engine_calculate\<close>, whose body is
  \<open>self.pending_engine_move = self.engine.best_move(self.board)\<close>. A live thread is either
  started and has not yet read \<open>self.board\<close> (\<open>Spawned\<close>), or is inside the engine call
  that will return \<open>r\<close> (\<open>Thinking r\<close>). \<open>engine_thread = None\<close> stands for no thread or a
  thread that has finished, which \<open>maybe_start_engine_think\<close> treats alike.
\<close>

datatype worker = Spawned | Thinking "move option"

record 'b gui =
  board :: 'b
  game_clock :: clock
  move_log :: move_log
  mode :: Mode
  selected_sq :: "square option"
  valid_dest_sqs :: "square list"
  last_move :: "move option"
  engine_thread :: "worker option"
  pending_engine_move :: "move option"

datatype error = AttributeError | AssertionError

definition SQUARE_SIZE :: nat where
  "SQUARE_SIZE = 80"

definition BOARD_SIZE :: nat where
  "BOARD_SIZE = 8 * SQUARE_SIZE"

definition engine_to_move :: "color \<Rightarrow> Mode \<Rightarrow> bool" where
  "engine_to_move side m =
     ((side = WHITE \<and> (m = ENGINE_VS_HUMAN \<or> m = ENGINE_VS_ENGINE)) \<or>
      (side = BLACK \<and> (m = HUMAN_VS_ENGINE \<or> m = ENGINE_VS_ENGINE)))"

definition maybe_start_engine_think :: "'b rules \<Rightarrow> 'b uci_engine \<Rightarrow> 'b gui \<Rightarrow> 'b gui" where
  "maybe_start_engine_think R eng g =
     (case eng of None \<Rightarrow> g
      | Some play \<Rightarrow>
          (case engine_thread g of Some w \<Rightarrow> g
           | None \<Rightarrow>
               if is_game_over R (board g) then g
               else if engine_to_move (turn R (board g)) (mode g)
                    then g\<lparr>engine_thread := Some Spawned\<rparr>
                    else g))"

text \<open>The condition of the promotion branch of \<open>make_move\<close>, for the piece on the origin square.\<close>

definition default_promotion_applies :: "piece \<Rightarrow> move \<Rightarrow> bool" where
  "default_promotion_applies p mv =
     (piece_type p = PAWN \<and>
      (square_rank (to_square mv) = 0 \<or> square_rank (to_square mv) = 7) \<and>
      promotion mv = None)"

text \<open>
  \<open>make_move(move)\<close>. \<open>t_stop\<close> and \<open>t_start\<close> are the readings of \<open>time.time()\<close> in
  \<open>stop_turn\<close> and \<open>start_turn\<close>. Reading \<open>.piece_type\<close> of an empty origin square raises
  \<open>AttributeError\<close>. The sound effects and their delays are not modelled.
\<close>

definition make_move ::
  "'b rules \<Rightarrow> 'b uci_engine \<Rightarrow> real \<Rightarrow> real \<Rightarrow> 'b gui \<Rightarrow> move \<Rightarrow> error + 'b gui" where
  "make_move R eng t_stop t_start g mv =
     (let b = board g;
          clk = stop_turn (turn R b) t_stop (game_clock g)
      in case san R b mv of
           None \<Rightarrow> Inl AssertionError
         | Some san0 \<Rightarrow>
             (let is_white = (turn R b = WHITE)
              in case piece_at R b (from_square mv) of
                   None \<Rightarrow> Inl AttributeError
                 | Some p \<Rightarrow>
                     (let promo = default_promotion_applies p mv;
                          mv1 = (if promo then mv\<lparr>promotion := Some QUEEN\<rparr> else mv)
                      in case (if promo then san R b mv1 else Some san0) of
                           None \<Rightarrow> Inl AssertionError
                         | Some san1 \<Rightarrow>
                             Inr (maybe_start_engine_think R eng
                                   (g\<lparr>board := push R b mv1,
                                      last_move := Some mv1,
                                      move_log := add_move (move_log g) san1 is_white,
                                      game_clock :=
                                        (if mode g \<noteq> ANALYSIS then start_turn t_start clk else clk),
                                      selected_sq := None,
                                      valid_dest_sqs := []\<rparr>)))))"

text \<open>\<open>stop_engine\<close>: "Stop any ongoing engine calculations".\<close>

definition stop_engine :: "'b gui \<Rightarrow> 'b gui" where
  "stop_engine g = g\<lparr>pending_engine_move := None\<rparr>"

text \<open>\<open>t_new\<close> is read by \<open>Clock()\<close>, \<open>t_start\<close> by \<open>start_turn\<close>.\<close>

definition change_mode :: "'b rules \<Rightarrow> 'b uci_engine \<Rightarrow> real \<Rightarrow> real \<Rightarrow> 'b gui \<Rightarrow> 'b gui" where
  "change_mode R eng t_new t_start g =
     (let g1 = stop_engine g;
          idx = (mode_index (mode g1) + 1) mod length modes
      in maybe_start_engine_think R eng
           (g1\<lparr>mode := modes ! idx,
               board := new_board R,
               selected_sq := None,
               valid_dest_sqs := [],
               last_move := None,
               pending_engine_move := None,
               game_clock := start_turn t_start (Clock_init START_TIME t_new),
               move_log := clear_log (move_log g1)\<rparr>))"

definition new_game :: "'b rules \<Rightarrow> 'b uci_engine \<Rightarrow> real \<Rightarrow> real \<Rightarrow> 'b gui \<Rightarrow> 'b gui" where
  "new_game R eng t_new t_start g =
     (let g1 = stop_engine g
      in maybe_start_engine_think R eng
           (g1\<lparr>board := new_board R,
               selected_sq := None,
               valid_dest_sqs := [],
               pending_engine_move := None,
               game_clock := start_turn t_start (Clock_init START_TIME t_new),
               move_log := clear_log (move_log g1),
               last_move := None\<rparr>))"

text \<open>
  \<open>on_click(pos)\<close> in two parts: which branch a click takes, and what the branch does.
  \<open>Forward mv\<close> is the branch that calls \<open>self.make_move(mv)\<close>, \<open>Deselect\<close> the one
  that rejects \<open>mv\<close>. Mouse positions are window coordinates, hence naturals.
\<close>

datatype click_action = Ignore | NoSelect | Select square | Forward move | Deselect

definition may_select :: "'b rules \<Rightarrow> 'b gui \<Rightarrow> piece \<Rightarrow> bool" where
  "may_select R g p =
     ((turn R (board g) = WHITE \<and> color p = WHITE \<and>
         (mode g = HUMAN_VS_HUMAN \<or> mode g = HUMAN_VS_ENGINE)) \<or>
      (turn R (board g) = BLACK \<and> color p = BLACK \<and>
         (mode g = HUMAN_VS_HUMAN \<or> mode g = ENGINE_VS_HUMAN)) \<or>
      mode g = ANALYSIS)"

definition click_action :: "'b rules \<Rightarrow> 'b gui \<Rightarrow> nat \<times> nat \<Rightarrow> click_action" where
  "click_action R g pos =
     (case pos of (x, y) \<Rightarrow>
        if mode g = ENGINE_VS_ENGINE then Ignore
        else if x \<ge> BOARD_SIZE \<or> y \<ge> BOARD_SIZE then Ignore
        else
          (let f = x div SQUARE_SIZE;
               r = 7 - y div SQUARE_SIZE;
               sq = square f r
           in case selected_sq g of
                None \<Rightarrow>
                  (case piece_at R (board g) sq of
                     None \<Rightarrow> NoSelect
                   | Some p \<Rightarrow> if may_select R g p then Select sq else NoSelect)
              | Some s \<Rightarrow>
                  (let mv = \<lparr>from_square = s, to_square = sq, promotion = None\<rparr>
                   in if mv \<in> set (legal_moves R (board g)) then Forward mv else Deselect)))"

definition on_click ::
  "'b rules \<Rightarrow> 'b uci_engine \<Rightarrow> real \<Rightarrow> real \<Rightarrow> 'b gui \<Rightarrow> nat \<times> nat \<Rightarrow> error + 'b gui" where
  "on_click R eng t_stop t_start g pos =
     (case click_action R g pos of
        Ignore \<Rightarrow> Inr g
      | NoSelect \<Rightarrow> Inr g
      | Select sq \<Rightarrow>
          Inr (g\<lparr>selected_sq := Some sq,
                 valid_dest_sqs :=
                   map to_square (filter (\<lambda>m. from_square m = sq) (legal_moves R (board g)))\<rparr>)
      | Forward mv \<Rightarrow> make_move R eng t_stop t_start g mv
      | Deselect \<Rightarrow> Inr (g\<lparr>selected_sq := None, valid_dest_sqs := []\<rparr>))"

text \<open>
  Truth value of a \<open>chess.Move\<close>: the null move (a1 to a1, no promotion) is false.
\<close>

definition move_truthy :: "move \<Rightarrow> bool" where
  "move_truthy mv = (\<not> (from_square mv = 0 \<and> to_square mv = 0 \<and> promotion mv = None))"

definition handle_engine ::
  "'b rules \<Rightarrow> 'b uci_engine \<Rightarrow> real \<Rightarrow> real \<Rightarrow> 'b gui \<Rightarrow> error + 'b gui" where
  "handle_engine R eng t_stop t_start g =
     (case pending_engine_move g of
        None \<Rightarrow> Inr g
      | Some mv \<Rightarrow>
          if move_truthy mv then
            (case make_move R eng t_stop t_start g mv of
               Inl e \<Rightarrow> Inl e
             | Inr g1 \<Rightarrow> Inr (g1\<lparr>pending_engine_move := None\<rparr>))
          else Inr g)"

text \<open>
  Whether \<open>make_move\<close> takes its promotion branch for \<open>mv\<close> on board \<open>b\<close>
  (with an empty origin square it raises before the branch).
\<close>

definition promotes_by_default :: "'b rules \<Rightarrow> 'b \<Rightarrow> move \<Rightarrow> bool" where
  "promotes_by_default R b mv =
     (case piece_at R b (from_square mv) of
        None \<Rightarrow> False
      | Some p \<Rightarrow> default_promotion_applies p mv)"

text \<open>The two steps of the background thread.\<close>

definition worker_call :: "'b uci_engine \<Rightarrow> 'b gui \<Rightarrow> 'b gui" where
  "worker_call eng g =
     (case engine_thread g of
        Some Spawned \<Rightarrow> g\<lparr>engine_thread := Some (Thinking (best_move eng (board g)))\<rparr>
      | _ \<Rightarrow> g)"

definition worker_return :: "'b gui \<Rightarrow> 'b gui" where
  "worker_return g =
     (case engine_thread g of
        Some (Thinking r) \<Rightarrow> g\<lparr>pending_engine_move := r, engine_thread := None\<rparr>
      | _ \<Rightarrow> g)"

text \<open>\<open>ChessGUI.__init__\<close>, with the readings of \<open>Clock()\<close> and \<open>start_turn\<close>.\<close>

definition ChessGUI_init :: "'b rules \<Rightarrow> 'b uci_engine \<Rightarrow> real \<Rightarrow> real \<Rightarrow> 'b gui" where
  "ChessGUI_init R eng t_new t_start =
     maybe_start_engine_think R eng
       \<lparr>board = new_board R,
        game_clock = start_turn t_start (Clock_init START_TIME t_new),
        move_log = ScrollableMoveLog_init (int BOARD_SIZE + 20) 180 180 280,
        mode = HUMAN_VS_ENGINE,
        selected_sq = None,
        valid_dest_sqs = [],
        last_move = None,
        engine_thread = None,
        pending_engine_move = None\<rparr>"

text \<open>
  What happens in a session: the input events of \<open>handle_events\<close>, the per-frame call of
  \<open>handle_engine\<close> (\<open>Tick\<close>), and the steps of the background thread, which run between
  handlers of the main loop. Each event carries the \<open>time.time()\<close> readings its handler
  makes. \<open>Click\<close> is a left button press; a press on the audio button lies outside the
  board, where \<open>on_click\<close> does nothing either. The quit event and the audio toggle do
  not touch the session state and are left out.
\<close>

datatype event =
    KeyN real real
  | KeySpace real real
  | KeyEscape
  | MouseWheel "int \<times> int" int
  | Click "nat \<times> nat" real real
  | Tick real real
  | WorkerCall
  | WorkerReturn

fun step :: "'b rules \<Rightarrow> 'b uci_engine \<Rightarrow> 'b gui \<Rightarrow> event \<Rightarrow> error + 'b gui" where
  "step R eng g (KeyN t1 t2) = Inr (new_game R eng t1 t2 g)"
| "step R eng g (KeySpace t1 t2) = Inr (change_mode R eng t1 t2 g)"
| "step R eng g KeyEscape = Inr (g\<lparr>selected_sq := None, valid_dest_sqs := []\<rparr>)"
| "step R eng g (MouseWheel mouse ey) =
     Inr (g\<lparr>move_log := snd (handle_mouse_wheel (move_log g) mouse ey)\<rparr>)"
| "step R eng g (Click pos t1 t2) = on_click R eng t1 t2 g pos"
| "step R eng g (Tick t1 t2) = handle_engine R eng t1 t2 g"
| "step R eng g WorkerCall = Inr (worker_call eng g)"
| "step R eng g WorkerReturn = Inr (worker_return g)"

fun run :: "'b rules \<Rightarrow> 'b uci_engine \<Rightarrow> 'b gui \<Rightarrow> event list \<Rightarrow> error + 'b gui" where
  "run R eng g [] = Inr g"
| "run R eng g (e # es) =
     (case step R eng g e of Inl err \<Rightarrow> Inl err | Inr g1 \<Rightarrow> run R eng g1 es)"


section \<open>A small rules instance: pawn advances only\<close>

text \<open>
  A stand-in for the rules library on which the controller can be run: the pieces stand
  as in chess, the side to move alternates, and the legal moves are the pawn advances
  (one step, two steps from the home rank, and the four promotions on reaching the last
  rank). Notation is the destination square, with \<open>=Q\<close> and the like for a promotion.
\<close>

record pboard =
  placement :: "(square \<times> piece) list"
  to_move :: color

fun opposite :: "color \<Rightarrow> color" where
  "opposite WHITE = BLACK"
| "opposite BLACK = WHITE"

definition pb_piece_at :: "pboard \<Rightarrow> square \<Rightarrow> piece option" where
  "pb_piece_at b sq = map_of (placement b) sq"

definition promo_kinds :: "piece_type list" where
  "promo_kinds = [QUEEN, ROOK, BISHOP, KNIGHT]"

definition white_advances :: "pboard \<Rightarrow> square \<Rightarrow> move list" where
  "white_advances b sq =
     (if square_rank sq \<ge> 7 then []
      else if pb_piece_at b (sq + 8) \<noteq> None then []
      else if square_rank (sq + 8) = 7 then
        map (\<lambda>k. \<lparr>from_square = sq, to_square = sq + 8, promotion = Some k\<rparr>) promo_kinds
      else
        \<lparr>from_square = sq, to_square = sq + 8, promotion = None\<rparr> #
        (if square_rank sq = 1 \<and> pb_piece_at b (sq + 16) = None
         then [\<lparr>from_square = sq, to_square = sq + 16, promotion = None\<rparr>] else []))"

definition black_advances :: "pboard \<Rightarrow> square \<Rightarrow> move list" where
  "black_advances b sq =
     (if square_rank sq = 0 then []
      else if pb_piece_at b (sq - 8) \<noteq> None then []
      else if square_rank (sq - 8) = 0 then
        map (\<lambda>k. \<lparr>from_square = sq, to_square = sq - 8, promotion = Some k\<rparr>) promo_kinds
      else
        \<lparr>from_square = sq, to_square = sq - 8, promotion = None\<rparr> #
        (if square_rank sq = 6 \<and> pb_piece_at b (sq - 16) = None
         then [\<lparr>from_square = sq, to_square = sq - 16, promotion = None\<rparr>] else []))"

definition pb_moves_of :: "pboard \<Rightarrow> square \<times> piece \<Rightarrow> move list" where
  "pb_moves_of b e =
     (case e of (sq, p) \<Rightarrow>
        if color p = to_move b \<and> piece_type p = PAWN
        then (if to_move b = WHITE then white_advances b sq else black_advances b sq)
        else [])"

definition pb_legal_moves :: "pboard \<Rightarrow> move list" where
  "pb_legal_moves b = concat (map (pb_moves_of b) (placement b))"

definition pb_push :: "pboard \<Rightarrow> move \<Rightarrow> pboard" where
  "pb_push b mv =
     (case pb_piece_at b (from_square mv) of
        None \<Rightarrow> b\<lparr>to_move := opposite (to_move b)\<rparr>
      | Some p \<Rightarrow>
          b\<lparr>placement :=
              (to_square mv, (case promotion mv of None \<Rightarrow> p | Some k \<Rightarrow> p\<lparr>piece_type := k\<rparr>)) #
              filter (\<lambda>e. fst e \<noteq> from_square mv \<and> fst e \<noteq> to_square mv) (placement b),
            to_move := opposite (to_move b)\<rparr>)"

fun piece_letter :: "piece_type \<Rightarrow> string" where
  "piece_letter PAWN = []"
| "piece_letter KNIGHT = ''N''"
| "piece_letter BISHOP = ''B''"
| "piece_letter ROOK = ''R''"
| "piece_letter QUEEN = ''Q''"
| "piece_letter KING = ''K''"

definition square_name :: "square \<Rightarrow> string" where
  "square_name sq = [''abcdefgh'' ! square_file sq, ''12345678'' ! square_rank sq]"

definition pb_san :: "pboard \<Rightarrow> move \<Rightarrow> string option" where
  "pb_san b mv =
     (case pb_piece_at b (from_square mv) of
        None \<Rightarrow> None
      | Some p \<Rightarrow>
          Some (piece_letter (piece_type p) @ square_name (to_square mv) @
                (case promotion mv of None \<Rightarrow> [] | Some k \<Rightarrow> ''='' @ piece_letter k)))"

definition back_rank :: "piece_type list" where
  "back_rank = [ROOK, KNIGHT, BISHOP, QUEEN, KING, BISHOP, KNIGHT, ROOK]"

definition pb_start :: pboard where
  "pb_start =
     \<lparr>placement =
        map (\<lambda>f. (square f 0, \<lparr>piece_type = back_rank ! f, color = WHITE\<rparr>)) [0..<8] @
        map (\<lambda>f. (square f 1, \<lparr>piece_type = PAWN, color = WHITE\<rparr>)) [0..<8] @
        map (\<lambda>f. (square f 6, \<lparr>piece_type = PAWN, color = BLACK\<rparr>)) [0..<8] @
        map (\<lambda>f. (square f 7, \<lparr>piece_type = back_rank ! f, color = BLACK\<rparr>)) [0..<8],
      to_move = WHITE\<rparr>"

definition pawn_rules :: "pboard rules" where
  "pawn_rules =
     \<lparr>new_board = pb_start,
      legal_moves = pb_legal_moves,
      push = pb_push,
      san = pb_san,
      piece_at = pb_piece_at,
      turn = to_move,
      is_game_over = (\<lambda>b. pb_legal_moves b = [])\<rparr>"

text \<open>An engine for this instance: it answers the first legal move of the board it is given.\<close>

definition first_move :: "pboard \<Rightarrow> move option" where
  "first_move b = (case pb_legal_moves b of [] \<Rightarrow> None | m # ms \<Rightarrow> Some m)"

text \<open>A position with a white pawn on a7 about to promote, and the two kings.\<close>

definition pb_promo :: pboard where
  "pb_promo =
     \<lparr>placement =
        [(square 0 6, \<lparr>piece_type = PAWN, color = WHITE\<rparr>),
         (square 4 0, \<lparr>piece_type = KING, color = WHITE\<rparr>),
         (square 4 7, \<lparr>piece_type = KING, color = BLACK\<rparr>)],
      to_move = WHITE\<rparr>"

text \<open>Named moves, clicks and states of the sessions evaluated below.\<close>

definition e2e4 :: move where
  "e2e4 = \<lparr>from_square = square 4 1, to_square = square 4 3, promotion = None\<rparr>"

definition a7a6 :: move where
  "a7a6 = \<lparr>from_square = square 0 6, to_square = square 0 5, promotion = None\<rparr>"


definition a7a8 :: move where
  "a7a8 = \<lparr>from_square = square 0 6, to_square = square 0 7, promotion = None\<rparr>"

definition click_e2 :: "nat \<times> nat" where
  "click_e2 = (340, 500)"

definition click_e4 :: "nat \<times> nat" where
  "click_e4 = (340, 340)"

definition click_e5 :: "nat \<times> nat" where
  "click_e5 = (340, 260)"

definition session0 :: "pboard gui" where
  "session0 = ChessGUI_init pawn_rules (Some first_move) 0 0"

definition e2_selected :: "pboard gui" where
  "e2_selected = projr (run pawn_rules (Some first_move) session0 [Click click_e2 1 1])"


definition promo_session :: "pboard gui" where
  "promo_session = session0\<lparr>board := pb_promo\<rparr>"

section \<open>Invariants used in the proofs\<close>

definition log_inv :: "move_log \<Rightarrow> bool" where
  "log_inv l =
     (line_height l = 18 \<and> max_scroll l \<le> scroll_bound l \<and>
      0 \<le> scroll_y l \<and> scroll_y l \<le> max_scroll l)"

section \<open>Turn clock: proofs\<close>

lemma remaining_start_turn: "remaining (start_turn t c) = remaining c"
  by (simp add: start_turn_def)

lemma clock_step_mono:
  "last_tick c \<le> t \<Longrightarrow> t \<le> op_time x \<Longrightarrow>
     remaining (clock_step c x) s \<le> remaining c s \<and> last_tick (clock_step c x) \<le> op_time x"
  by (cases x) (auto simp: start_turn_def stop_turn_def)

lemma run_clock_mono:
  "last_tick c \<le> t \<Longrightarrow> readings_ok t ops \<Longrightarrow> remaining (run_clock c ops) s \<le> remaining c s"
proof (induction ops arbitrary: c t)
  case Nil
  then show ?case by simp
next
  case (Cons x xs)
  from Cons.prems have a: "t \<le> op_time x" and b: "readings_ok (op_time x) xs" by simp_all
  from clock_step_mono [OF Cons.prems(1) a]
  have c1: "remaining (clock_step c x) s \<le> remaining c s"
    and c2: "last_tick (clock_step c x) \<le> op_time x" by simp_all
  from Cons.IH [OF c2 b] c1 show ?case by simp
qed

lemma run_clock_append: "run_clock c (xs @ ys) = run_clock (run_clock c xs) ys"
  by (induction xs arbitrary: c) simp_all

lemma run_clock_split:
  "last_tick c \<le> t \<Longrightarrow> readings_ok t (xs @ ys) \<Longrightarrow>
     \<exists>u. last_tick (run_clock c xs) \<le> u \<and> readings_ok u ys"
proof (induction xs arbitrary: c t)
  case Nil
  then show ?case by auto
next
  case (Cons x xs)
  from Cons.prems have a: "t \<le> op_time x" and b: "readings_ok (op_time x) (xs @ ys)" by simp_all
  from clock_step_mono [OF Cons.prems(1) a, of WHITE]
  have c2: "last_tick (clock_step c x) \<le> op_time x" by simp
  from Cons.IH [OF c2 b] show ?case by simp
qed

lemma flag_mono:
  "(\<And>s. remaining c' s \<le> remaining c s) \<Longrightarrow> flag c \<Longrightarrow> flag c'"
  unfolding flag_def by (meson order_trans)

text \<open>
  Claim C5 says that a second \<open>stop_turn\<close> for the same side, with no \<open>start_turn\<close> in
  between, is rejected and deducts nothing. \<open>stop_turn\<close> has no guard. On a fresh
  300-second clock started at time 0, stopping White at time 10 leaves 290 seconds and
  stopping White again at time 20 leaves 270: the first ten seconds are deducted twice.
\<close>

theorem double_stop_deducts_twice:
  "remaining (stop_turn WHITE 10 (Clock_init START_TIME 0)) WHITE = 290 \<and>
   remaining (stop_turn WHITE 20 (stop_turn WHITE 10 (Clock_init START_TIME 0))) WHITE = 270"
  by (simp add: stop_turn_def Clock_init_def START_TIME_def)

text \<open>
  Claim C5 as amended: every call of \<open>stop_turn\<close> subtracts the time elapsed since the
  last \<open>start_turn\<close>, so two calls for the same side with no \<open>start_turn\<close> in between
  subtract both intervals, each measured from the same \<open>last_tick\<close>.
\<close>

theorem stop_turn_twice_subtracts_both:
  "remaining (stop_turn s t2 (stop_turn s t1 c)) s =
     remaining c s - (t1 - last_tick c) - (t2 - last_tick c)"
  by (simp add: stop_turn_def)

text \<open>
  Claim C6 says that the stored remaining duration never goes negative. \<open>stop_turn\<close>
  subtracts without clamping: a side that thinks for 301 seconds on a 300-second clock
  is left with \<open>-1\<close>, and the clock is flagged.
\<close>

theorem remaining_negative_after_overrun:
  "remaining (stop_turn WHITE 301 (Clock_init START_TIME 0)) WHITE = -1 \<and>
   flag (stop_turn WHITE 301 (Clock_init START_TIME 0))"
  by (simp add: stop_turn_def Clock_init_def START_TIME_def flag_def)

text \<open>
  Claim C6 as amended: after every sequence of clock operations the number of seconds
  that \<open>draw\<close> shows for a side, \<open>max(0, int(remaining))\<close>, is not negative; the stored
  duration is the previous one minus the elapsed time, without a lower bound.
\<close>

theorem displayed_seconds_nonneg:
  "0 \<le> draw_secs (run_clock c ops) s \<and>
   remaining (stop_turn s t c) s = remaining c s - (t - last_tick c)"
  by (simp add: draw_secs_def stop_turn_def)

text \<open>
  Claim C9 says that remaining time never increases under any clock operation, because
  \<open>stop_turn\<close> always subtracts a non-negative interval. \<open>stop_turn\<close> subtracts
  \<open>now - last_tick\<close> of two wall-clock readings and does not test \<open>now \<ge> last_tick\<close>.
  With a reading earlier than the last one (the system clock set back by 5 seconds) a
  300-second clock shows 305; and a clock that has flagged at exactly zero is no longer
  flagged after such a call.
\<close>

theorem earlier_reading_adds_time:
  "remaining (stop_turn WHITE 95 (Clock_init START_TIME 100)) WHITE = 305 \<and>
   remaining (Clock_init START_TIME 100) WHITE = 300 \<and>
   flag (stop_turn WHITE 400 (Clock_init START_TIME 100)) \<and>
   \<not> flag (stop_turn WHITE 95 (stop_turn WHITE 400 (Clock_init START_TIME 100)))"
  by (simp add: stop_turn_def Clock_init_def START_TIME_def flag_def)

text \<open>
  Claim C9 as amended: within one clock, over every sequence of \<open>start_turn\<close> and
  \<open>stop_turn\<close> calls whose \<open>time.time()\<close> readings do not run backwards, each side's
  remaining duration after a longer run is at most what it was after any prefix of it,
  and a clock that is flagged after the prefix is still flagged after the whole run.
\<close>

theorem clock_remaining_nonincreasing:
  assumes "readings_ok (last_tick c) (ops1 @ ops2)"
  shows "remaining (run_clock c (ops1 @ ops2)) s \<le> remaining (run_clock c ops1) s \<and>
         (flag (run_clock c ops1) \<longrightarrow> flag (run_clock c (ops1 @ ops2)))"
proof -
  from run_clock_split [OF order_refl assms]
  obtain u where u: "last_tick (run_clock c ops1) \<le> u" "readings_ok u ops2" by blast
  have m: "\<And>s. remaining (run_clock (run_clock c ops1) ops2) s \<le> remaining (run_clock c ops1) s"
    using run_clock_mono [OF u] .
  show ?thesis using m flag_mono [OF m] by (simp add: run_clock_append)
qed

text \<open>
  An instance: White overruns at time 301, then the clock is started at 302 and Black is
  stopped at 310. The clock is flagged after the first call and stays so.
\<close>

theorem clock_remaining_nonincreasing_witness:
  "readings_ok (last_tick (Clock_init 300 0))
     ([StopTurn WHITE 301] @ [StartTurn 302, StopTurn BLACK 310]) \<and>
   flag (run_clock (Clock_init 300 0) [StopTurn WHITE 301]) \<and>
   remaining (run_clock (Clock_init 300 0)
                ([StopTurn WHITE 301] @ [StartTurn 302, StopTurn BLACK 310])) BLACK
     \<le> remaining (run_clock (Clock_init 300 0) [StopTurn WHITE 301]) BLACK \<and>
   flag (run_clock (Clock_init 300 0)
           ([StopTurn WHITE 301] @ [StartTurn 302, StopTurn BLACK 310]))"
proof -
  have h: "readings_ok (last_tick (Clock_init 300 0))
             ([StopTurn WHITE 301] @ [StartTurn 302, StopTurn BLACK 310])"
    by (simp add: Clock_init_def)
  have f: "flag (run_clock (Clock_init 300 0) [StopTurn WHITE 301])"
    by (simp add: Clock_init_def stop_turn_def flag_def)
  show ?thesis using h f clock_remaining_nonincreasing [OF h, of BLACK] by blast
qed

section \<open>Move ledger: proofs\<close>

lemma scroll_after_add:
  "scroll_y (add_move l str w) = scroll_bound (add_move l str w) \<and>
   max_scroll (add_move l str w) = scroll_bound (add_move l str w) \<and>
   line_height (add_move l str w) = line_height l \<and>
   visible_lines (add_move l str w) = visible_lines l"
  by (auto simp: add_move_def Let_def update_scroll_limits_def auto_scroll_to_bottom_def
                 scroll_bound_def max_def)

lemma scroll_bound_nonneg: "line_height l = 18 \<Longrightarrow> 0 \<le> scroll_bound l"
  by (simp add: scroll_bound_def)

lemma log_inv_init: "log_inv (ScrollableMoveLog_init x y w h)"
  by (simp add: log_inv_def ScrollableMoveLog_init_def scroll_bound_def)

lemma log_inv_step: "log_inv l \<Longrightarrow> log_inv (log_step l x)"
proof (cases x)
  case (AddMove str w)
  assume "log_inv l"
  then have "line_height (add_move l str w) = 18"
    using scroll_after_add by (simp add: log_inv_def)
  then show ?thesis
    using AddMove scroll_after_add [of l str w] scroll_bound_nonneg [of "add_move l str w"]
    by (simp add: log_inv_def)
next
  case ClearLog
  assume "log_inv l"
  then show ?thesis using ClearLog by (simp add: log_inv_def clear_log_def scroll_bound_def)
next
  case (Wheel mouse ey)
  assume "log_inv l"
  then show ?thesis using Wheel
    by (auto simp: log_inv_def handle_mouse_wheel_def Let_def scroll_bound_def)
qed

lemma log_inv_run: "log_inv l \<Longrightarrow> log_inv (run_log l ops)"
  by (induction ops arbitrary: l) (simp_all add: log_inv_step)

text \<open>
  Claim C8: in every ledger state reached from a new ledger by appends, clears and wheel
  events, an append leaves the scroll offset (and the stored maximum) equal to
  \<open>max(0, total - visible) * line_height\<close> for the new number of entries, and a wheel
  event leaves the offset between 0 and the stored maximum, which does not exceed that
  value.
\<close>

theorem scroll_offset_bounds:
  "scroll_y (add_move (run_log (ScrollableMoveLog_init x y w h) ops) str is_white)
     = scroll_bound (add_move (run_log (ScrollableMoveLog_init x y w h) ops) str is_white)
   \<and> max_scroll (add_move (run_log (ScrollableMoveLog_init x y w h) ops) str is_white)
     = scroll_bound (add_move (run_log (ScrollableMoveLog_init x y w h) ops) str is_white)
   \<and> 0 \<le> scroll_y (snd (handle_mouse_wheel (run_log (ScrollableMoveLog_init x y w h) ops) mouse ey))
   \<and> scroll_y (snd (handle_mouse_wheel (run_log (ScrollableMoveLog_init x y w h) ops) mouse ey))
       \<le> max_scroll (snd (handle_mouse_wheel (run_log (ScrollableMoveLog_init x y w h) ops) mouse ey))
   \<and> max_scroll (snd (handle_mouse_wheel (run_log (ScrollableMoveLog_init x y w h) ops) mouse ey))
       \<le> scroll_bound (snd (handle_mouse_wheel (run_log (ScrollableMoveLog_init x y w h) ops) mouse ey))"
proof -
  let ?l = "run_log (ScrollableMoveLog_init x y w h) ops"
  have i: "log_inv ?l" by (rule log_inv_run [OF log_inv_init])
  have "log_inv (log_step ?l (Wheel mouse ey))" by (rule log_inv_step [OF i])
  then have w: "log_inv (snd (handle_mouse_wheel ?l mouse ey))" by simp
  show ?thesis using scroll_after_add [of ?l str is_white] w unfolding log_inv_def by blast
qed

section \<open>Session controller: proofs\<close>

lemma maybe_start_alive: "engine_thread g = Some w \<Longrightarrow> maybe_start_engine_think R eng g = g"
  by (simp add: maybe_start_engine_think_def split: option.splits)

lemma maybe_start_fields:
  "board (maybe_start_engine_think R eng g) = board g"
  "last_move (maybe_start_engine_think R eng g) = last_move g"
  "move_log (maybe_start_engine_think R eng g) = move_log g"
  "game_clock (maybe_start_engine_think R eng g) = game_clock g"
  "selected_sq (maybe_start_engine_think R eng g) = selected_sq g"
  "valid_dest_sqs (maybe_start_engine_think R eng g) = valid_dest_sqs g"
  "pending_engine_move (maybe_start_engine_think R eng g) = pending_engine_move g"
  "mode (maybe_start_engine_think R eng g) = mode g"
  by (simp_all add: maybe_start_engine_think_def split: option.splits)

text \<open>A frame in which no engine move is pending leaves the session as it is.\<close>

lemma handle_engine_idle:
  "pending_engine_move g = None \<Longrightarrow> handle_engine R eng t1 t2 g = Inr g"
  by (simp add: handle_engine_def)

text \<open>A reset empties the pending slot and installs a fresh clock.\<close>

lemma reset_clears_pending:
  "pending_engine_move (new_game R eng t1 t2 g) = None"
  "pending_engine_move (change_mode R eng t1 t2 g) = None"
  by (simp_all add: new_game_def change_mode_def stop_engine_def Let_def maybe_start_fields)

lemma reset_replaces_clock:
  "remaining (game_clock (new_game R eng t1 t2 g)) s = START_TIME"
  "remaining (game_clock (change_mode R eng t1 t2 g)) s = START_TIME"
  by (simp_all add: new_game_def change_mode_def stop_engine_def Let_def maybe_start_fields
                    start_turn_def Clock_init_def)

text \<open>
  When \<open>maybe_start_engine_think\<close> starts a thread, the engine's side is to move.
\<close>

lemma spawn_engine_to_move:
  "engine_thread g = None \<Longrightarrow>
   engine_thread (maybe_start_engine_think R eng g) = Some Spawned \<Longrightarrow>
   engine_to_move (turn R (board g)) (mode g)"
  by (auto simp: maybe_start_engine_think_def split: option.splits if_splits)





text \<open>
  Claim C1, at a session the program reaches. In human-versus-engine mode the user plays
  e2-e4; the engine thread starts and is given the position after that move, for which
  the engine answers a7-a6. While the engine is thinking the user presses N: the board
  is back at the start, the ledger and the pending slot are empty. \<open>stop_engine\<close> has
  only cleared the pending slot, so when the thread returns it stores a7-a6 there, and
  the next call of \<open>handle_engine\<close> plays it on the new game.
\<close>

theorem stale_engine_move_applied_after_new_game:
  "(case run pawn_rules (Some first_move) session0
           [Click click_e2 1 1, Click click_e4 2 2, WorkerCall] of
      Inl e \<Rightarrow> False
    | Inr g \<Rightarrow> board g = push pawn_rules (new_board pawn_rules) e2e4 \<and>
               engine_thread g = Some (Thinking (Some a7a6))) \<and>
   (case run pawn_rules (Some first_move) session0
           [Click click_e2 1 1, Click click_e4 2 2, WorkerCall, KeyN 3 3] of
      Inl e \<Rightarrow> False
    | Inr g \<Rightarrow> board g = new_board pawn_rules \<and> pending_engine_move g = None \<and>
               moves (move_log g) = []) \<and>
   (case run pawn_rules (Some first_move) session0
           [Click click_e2 1 1, Click click_e4 2 2, WorkerCall, KeyN 3 3, WorkerReturn,
            Tick 4 4] of
      Inl e \<Rightarrow> False
    | Inr g \<Rightarrow> board g = push pawn_rules (new_board pawn_rules) a7a6 \<and>
               last_move g = Some a7a6 \<and>
               moves (move_log g) = [(1, ''a6'', [])])"
  by code_simp




text \<open>
  Claim C3, at the session of C1. After the new game the pending slot receives a7-a6,
  which is not a legal move of the starting position; \<open>handle_engine\<close> passes it to
  \<open>make_move\<close> without the membership test that \<open>on_click\<close> makes, and it is pushed.
\<close>

theorem unvalidated_engine_move_pushed:
  "(case run pawn_rules (Some first_move) session0
           [Click click_e2 1 1, Click click_e4 2 2, WorkerCall, KeyN 3 3, WorkerReturn] of
      Inl e \<Rightarrow> False
    | Inr g \<Rightarrow>
        board g = new_board pawn_rules \<and>
        pending_engine_move g = Some a7a6 \<and>
        a7a6 \<notin> set (legal_moves pawn_rules (board g)) \<and>
        (case handle_engine pawn_rules (Some first_move) 4 4 g of
           Inl e \<Rightarrow> False
         | Inr g1 \<Rightarrow> board g1 = push pawn_rules (board g) a7a6 \<and> last_move g1 = Some a7a6))"
  by code_simp

text \<open>
  Claim C4: with a square selected, a click on a square for which the move from the
  selected square is not in the legal-move set returns normally, leaves the board, the
  clock and the ledger as they were, and clears the selection.
\<close>

theorem illegal_click_move_rejected:
  assumes "mode g \<noteq> ENGINE_VS_ENGINE"
    and "x < BOARD_SIZE" and "y < BOARD_SIZE"
    and "selected_sq g = Some s"
    and "\<lparr>from_square = s, to_square = square (x div SQUARE_SIZE) (7 - y div SQUARE_SIZE),
          promotion = None\<rparr> \<notin> set (legal_moves R (board g))"
  shows "case on_click R eng t1 t2 g (x, y) of
           Inl e \<Rightarrow> False
         | Inr g1 \<Rightarrow> board g1 = board g \<and> game_clock g1 = game_clock g \<and>
                     move_log g1 = move_log g \<and> selected_sq g1 = None \<and>
                     valid_dest_sqs g1 = []"
proof -
  have "click_action R g (x, y) = Deselect"
    using assms by (simp add: click_action_def Let_def)
  then show ?thesis by (simp add: on_click_def)
qed

text \<open>An instance: at the start e2 is selected and the user clicks e5.\<close>

theorem illegal_click_move_rejected_witness:
  "mode e2_selected \<noteq> ENGINE_VS_ENGINE \<and>
   fst click_e5 < BOARD_SIZE \<and> snd click_e5 < BOARD_SIZE \<and>
   selected_sq e2_selected = Some (square 4 1) \<and>
   \<lparr>from_square = square 4 1,
    to_square = square (fst click_e5 div SQUARE_SIZE) (7 - snd click_e5 div SQUARE_SIZE),
    promotion = None\<rparr> \<notin> set (legal_moves pawn_rules (board e2_selected)) \<and>
   (case on_click pawn_rules (Some first_move) 2 2 e2_selected (fst click_e5, snd click_e5) of
      Inl e \<Rightarrow> False
    | Inr g1 \<Rightarrow> board g1 = board e2_selected \<and> game_clock g1 = game_clock e2_selected \<and>
                move_log g1 = move_log e2_selected \<and> selected_sq g1 = None \<and>
                valid_dest_sqs g1 = [])"
proof -
  have h1: "mode e2_selected \<noteq> ENGINE_VS_ENGINE" by code_simp
  have h2: "fst click_e5 < BOARD_SIZE" by code_simp
  have h3: "snd click_e5 < BOARD_SIZE" by code_simp
  have h4: "selected_sq e2_selected = Some (square 4 1)" by code_simp
  have h5: "\<lparr>from_square = square 4 1,
    to_square = square (fst click_e5 div SQUARE_SIZE) (7 - snd click_e5 div SQUARE_SIZE),
    promotion = None\<rparr> \<notin> set (legal_moves pawn_rules (board e2_selected))" by code_simp
  from illegal_click_move_rejected [OF h1 h2 h3 h4 h5, of "Some first_move" 2 2] h1 h2 h3 h4 h5
  show ?thesis by blast
qed

text \<open>What \<open>add_move\<close> leaves in the list of entries.\<close>

lemma moves_add_move:
  "moves (add_move l str w) =
     (if w then moves l @ [(current_move_number l, str, [])]
      else if waiting_for_black l \<and> moves l \<noteq> [] then
        butlast (moves l) @ [(fst (last (moves l)), fst (snd (last (moves l))), str)]
      else moves l @ [(current_move_number l, [], str)])"
  by (cases "last (moves l)")
     (auto simp: add_move_def Let_def update_scroll_limits_def auto_scroll_to_bottom_def
                 set_last_black_def)

text \<open>
  Claim C7: when \<open>make_move\<close> receives a move of a pawn to the first or the last rank
  with no promotion set (and the library renders both notations), the move pushed and
  remembered is the same move with promotion to queen, and the notation recorded in the
  ledger is that of the promoted move: for White a new entry with the current move
  number and that notation in the white field, for Black that notation in the black
  field of the open entry (or of a new entry when none is open).
\<close>

theorem default_queen_promotion:
  assumes "piece_at R (board g) (from_square mv) = Some p"
    and "piece_type p = PAWN"
    and "square_rank (to_square mv) = 0 \<or> square_rank (to_square mv) = 7"
    and "promotion mv = None"
    and "san R (board g) mv = Some s0"
    and "san R (board g) (mv\<lparr>promotion := Some QUEEN\<rparr>) = Some s1"
  shows "case make_move R eng t1 t2 g mv of
           Inl e \<Rightarrow> False
         | Inr g1 \<Rightarrow>
             board g1 = push R (board g) (mv\<lparr>promotion := Some QUEEN\<rparr>) \<and>
             last_move g1 = Some (mv\<lparr>promotion := Some QUEEN\<rparr>) \<and>
             move_log g1 = add_move (move_log g) s1 (turn R (board g) = WHITE) \<and>
             moves (move_log g1) =
               (if turn R (board g) = WHITE then
                  moves (move_log g) @ [(current_move_number (move_log g), s1, [])]
                else if waiting_for_black (move_log g) \<and> moves (move_log g) \<noteq> [] then
                  butlast (moves (move_log g)) @
                    [(fst (last (moves (move_log g))), fst (snd (last (moves (move_log g)))), s1)]
                else moves (move_log g) @ [(current_move_number (move_log g), [], s1)])"
proof -
  let ?l = "add_move (move_log g) s1 (turn R (board g) = WHITE)"
  obtain g1 where r: "make_move R eng t1 t2 g mv = Inr g1"
    and b: "board g1 = push R (board g) (mv\<lparr>promotion := Some QUEEN\<rparr>)"
    and lm: "last_move g1 = Some (mv\<lparr>promotion := Some QUEEN\<rparr>)"
    and ml: "move_log g1 = ?l"
    using assms
    by (simp add: make_move_def Let_def default_promotion_applies_def maybe_start_fields)
  have m: "moves (move_log g1) =
             (if turn R (board g) = WHITE then
                moves (move_log g) @ [(current_move_number (move_log g), s1, [])]
              else if waiting_for_black (move_log g) \<and> moves (move_log g) \<noteq> [] then
                butlast (moves (move_log g)) @
                  [(fst (last (moves (move_log g))), fst (snd (last (moves (move_log g)))), s1)]
              else moves (move_log g) @ [(current_move_number (move_log g), [], s1)])"
    unfolding ml by (rule moves_add_move)
  show ?thesis unfolding r using b lm ml m by simp
qed

text \<open>
  An instance: the white pawn on a7 is moved to a8 with no promotion set, in a session
  with an empty ledger. The ledger then holds the single entry 1. a8=Q.
\<close>

theorem default_queen_promotion_witness:
  "piece_at pawn_rules (board promo_session) (from_square a7a8)
     = Some \<lparr>piece_type = PAWN, color = WHITE\<rparr> \<and>
   piece_type \<lparr>piece_type = PAWN, color = WHITE\<rparr> = PAWN \<and>
   (square_rank (to_square a7a8) = 0 \<or> square_rank (to_square a7a8) = 7) \<and>
   promotion a7a8 = None \<and>
   san pawn_rules (board promo_session) a7a8 = Some ''a8'' \<and>
   san pawn_rules (board promo_session) (a7a8\<lparr>promotion := Some QUEEN\<rparr>) = Some ''a8=Q'' \<and>
   (case make_move pawn_rules (Some first_move) 1 1 promo_session a7a8 of
      Inl e \<Rightarrow> False
    | Inr g1 \<Rightarrow>
        board g1 = push pawn_rules (board promo_session) (a7a8\<lparr>promotion := Some QUEEN\<rparr>) \<and>
        last_move g1 = Some (a7a8\<lparr>promotion := Some QUEEN\<rparr>) \<and>
        move_log g1 = add_move (move_log promo_session) ''a8=Q''
                        (turn pawn_rules (board promo_session) = WHITE) \<and>
        moves (move_log g1) =
          (if turn pawn_rules (board promo_session) = WHITE then
             moves (move_log promo_session) @
               [(current_move_number (move_log promo_session), ''a8=Q'', [])]
           else if waiting_for_black (move_log promo_session) \<and>
                   moves (move_log promo_session) \<noteq> [] then
             butlast (moves (move_log promo_session)) @
               [(fst (last (moves (move_log promo_session))),
                 fst (snd (last (moves (move_log promo_session)))), ''a8=Q'')]
           else moves (move_log promo_session) @
                  [(current_move_number (move_log promo_session), [], ''a8=Q'')])) \<and>
   (case make_move pawn_rules (Some first_move) 1 1 promo_session a7a8 of
      Inl e \<Rightarrow> False
    | Inr g1 \<Rightarrow> moves (move_log g1) = [(1, ''a8=Q'', [])])"
proof -
  have h1: "piece_at pawn_rules (board promo_session) (from_square a7a8)
     = Some \<lparr>piece_type = PAWN, color = WHITE\<rparr>" by code_simp
  have h2: "piece_type \<lparr>piece_type = PAWN, color = WHITE\<rparr> = PAWN" by simp
  have h3: "square_rank (to_square a7a8) = 0 \<or> square_rank (to_square a7a8) = 7" by code_simp
  have h4: "promotion a7a8 = None" by code_simp
  have h5: "san pawn_rules (board promo_session) a7a8 = Some ''a8''" by code_simp
  have h6: "san pawn_rules (board promo_session) (a7a8\<lparr>promotion := Some QUEEN\<rparr>) = Some ''a8=Q''"
    by code_simp
  have h7: "case make_move pawn_rules (Some first_move) 1 1 promo_session a7a8 of
      Inl e \<Rightarrow> False
    | Inr g1 \<Rightarrow> moves (move_log g1) = [(1, ''a8=Q'', [])]" by code_simp
  from default_queen_promotion [OF h1 h2 h3 h4 h5 h6, of "Some first_move" 1 1]
    h1 h2 h3 h4 h5 h6 h7
  show ?thesis by blast
qed

text \<open>
  The same for Black with a white half-move open: the notation goes into the black field
  of the open entry.
\<close>

lemma black_promotion_fills_open_entry:
  "moves (add_move (add_move (ScrollableMoveLog_init 660 180 180 280) ''e4'' True) ''a1=Q'' False)
     = [(1, ''e4'', ''a1=Q'')]"
  by code_simp

text \<open>
  Claim C10: a move that \<open>on_click\<close> forwards to \<open>make_move\<close> is in the legal-move set
  of the current position and has no promotion set; so, when no legal move of the
  position is a pawn move to the first or last rank without promotion, \<open>make_move\<close> does
  not take its promotion branch for it and applies the move as it is.
\<close>

theorem click_never_promotes_by_default:
  assumes "click_action R g pos = Forward mv"
    and "\<forall>m \<in> set (legal_moves R (board g)). \<not> promotes_by_default R (board g) m"
  shows "mv \<in> set (legal_moves R (board g)) \<and>
         promotion mv = None \<and>
         \<not> promotes_by_default R (board g) mv \<and>
         on_click R eng t1 t2 g pos = make_move R eng t1 t2 g mv \<and>
         (case make_move R eng t1 t2 g mv of Inl e \<Rightarrow> True | Inr g1 \<Rightarrow> last_move g1 = Some mv)"
proof -
  obtain x y where pos: "pos = (x, y)" by (cases pos)
  from assms(1) have leg: "mv \<in> set (legal_moves R (board g))" and pr: "promotion mv = None"
    by (auto simp: click_action_def pos Let_def split: if_splits option.splits)
  from assms(2) leg have np: "\<not> promotes_by_default R (board g) mv" by blast
  have oc: "on_click R eng t1 t2 g pos = make_move R eng t1 t2 g mv"
    using assms(1) by (simp add: on_click_def)
  have lm: "case make_move R eng t1 t2 g mv of Inl e \<Rightarrow> True | Inr g1 \<Rightarrow> last_move g1 = Some mv"
    using np
    by (auto simp: make_move_def Let_def promotes_by_default_def maybe_start_fields
             split: option.splits sum.splits)
  show ?thesis using leg pr np oc lm by blast
qed

text \<open>An instance: at the start e2 is selected and the user clicks e4.\<close>

theorem click_never_promotes_by_default_witness:
  "click_action pawn_rules e2_selected click_e4 = Forward e2e4 \<and>
   list_all (\<lambda>m. \<not> promotes_by_default pawn_rules (board e2_selected) m)
     (legal_moves pawn_rules (board e2_selected)) \<and>
   e2e4 \<in> set (legal_moves pawn_rules (board e2_selected)) \<and>
   \<not> promotes_by_default pawn_rules (board e2_selected) e2e4 \<and>
   on_click pawn_rules (Some first_move) 2 2 e2_selected click_e4
     = make_move pawn_rules (Some first_move) 2 2 e2_selected e2e4"
proof -
  have h1: "click_action pawn_rules e2_selected click_e4 = Forward e2e4" by code_simp
  have l: "list_all (\<lambda>m. \<not> promotes_by_default pawn_rules (board e2_selected) m)
             (legal_moves pawn_rules (board e2_selected))" by code_simp
  then have h2: "\<forall>m \<in> set (legal_moves pawn_rules (board e2_selected)).
      \<not> promotes_by_default pawn_rules (board e2_selected) m"
    by (simp only: list_all_iff)
  from click_never_promotes_by_default [OF h1 h2, of "Some first_move" 2 2] h1 l
  show ?thesis by blast
qed

text \<open>
  With the pawn on a7 selected, a click on a8 is rejected: the legal moves to a8 all
  carry a promotion, the move built from the click carries none.
\<close>

lemma promotion_click_rejected:
  "click_action pawn_rules (promo_session\<lparr>selected_sq := Some (square 0 6)\<rparr>) (20, 20) = Deselect"
  by code_simp

end
